theory Spec2Isabelle
  imports Main "HOL-Library.Word"
begin

section \<open>Data model of the message store (message-store-nosql.ts)\<close>

text \<open>
  The store keeps one DynamoDB item per message. An item is a JavaScript object from
  attribute names to attribute values; an attribute value is a tagged union of which the
  store uses the string member \<open>S\<close> and the binary member \<open>B\<close>. Reading the member
  \<open>.S\<close> of a value of another kind gives \<open>undefined\<close>, here \<open>None\<close>.
\<close>

type_synonym bytes = "8 word list"

datatype AttributeValue = S string | B bytes | N string

type_synonym item = "(string \<times> AttributeValue) list"

fun member_S :: "AttributeValue \<Rightarrow> string option" where
  "member_S (S s) = Some s"
| "member_S _ = None"

fun member_B :: "AttributeValue \<Rightarrow> bytes option" where
  "member_B (B b) = Some b"
| "member_B _ = None"

text \<open>
  A filter clause maps property names to filter values. The SDK's filter value is a
  string, a number, a boolean, a list of those (one-of) or a range.
\<close>

datatype FilterValue =
    EqualString string
  | EqualNumber int
  | EqualBoolean bool
  | OneOfFilter "string list"
  | RangeFilter "string option" "string option"

type_synonym Filter = "(string \<times> FilterValue) list"

datatype KeyValue = KString string | KNumber int | KBoolean bool

type_synonym KeyValues = "(string \<times> KeyValue) list"

datatype SortDirection = Descending | Ascending

record MessageSort =
  dateCreated :: "SortDirection option"
  datePublished :: "SortDirection option"
  messageTimestamp :: "SortDirection option"

record SortProperties =
  property :: string
  direction :: SortDirection

record PaginationCursor =
  messageCid :: string
  cursor_value :: string

record Pagination =
  cursor :: "PaginationCursor option"
  limit :: "nat option"

text \<open>
  A message is an object with a descriptor (naming its interface and method), possibly
  an \<open>encodedData\<close> string, and further fields that the store never inspects. The
  descriptor's property \<open>method\<close> is the field \<open>methodName\<close> here. A pagination
  limit is a count, a natural number.
\<close>

record Descriptor =
  interface :: string
  methodName :: string
  descriptor_fields :: "(string \<times> string) list"

record GenericMessage =
  descriptor :: Descriptor
  encodedData :: "string option"
  message_fields :: "(string \<times> string) list"

text \<open>The abort signal of the options: \<open>None\<close> when no options or no signal is passed.\<close>

record AbortSignal =
  aborted :: bool

type_synonym MessageStoreOptions = "AbortSignal option"

datatype error =
    AbortError
  | TypeError
  | SyntaxError
  | DecodeError
  | EncodeError
  | BackendError string

record QueryResult =
  messages :: "GenericMessage list"
  result_cursor :: "PaginationCursor option"

subsection \<open>Commands sent to the backend and their outputs\<close>

record QueryCommandInput =
  TableName :: string
  KeyConditionTenant :: string
  ScanIndexForward :: bool
  IndexName :: "string option"
  Limit :: "nat option"
  ExclusiveStartKey :: "item option"

datatype Command =
    PutItemCommand item
  | GetItemCommand item "string list"
  | QueryCommand QueryCommandInput
  | DeleteItemCommand item
  | ScanCommand "item option"

text \<open>
  The output object of a command; a field the backend did not set is \<open>undefined\<close>
  (\<open>None\<close>).
\<close>

record CommandOutput =
  Item :: "item option"
  Items :: "item list option"
  ScannedCount :: "nat option"
  LastEvaluatedKey :: "item option"

text \<open>
  What the store calls and does not define itself: the DynamoDB client (\<open>send\<close>, over a
  backend state of any type), the block codec (dag-cbor encoding with the sha-256
  content identifier), \<open>JSON.stringify\<close> and \<open>JSON.parse\<close> on keys, and the index
  sanitiser of \<open>utils/sanitize.js\<close>, which returns the direct indexes and the tags.
\<close>

record 'b deps =
  send :: "Command \<Rightarrow> 'b \<Rightarrow> (error + CommandOutput) \<times> 'b"
  block_encode :: "GenericMessage \<Rightarrow> error + (string \<times> bytes)"
  block_decode :: "bytes \<Rightarrow> error + GenericMessage"
  JSON_stringify :: "item \<Rightarrow> string"
  JSON_parse :: "string \<Rightarrow> error + item"
  extractTagsAndSanitizeIndexes :: "KeyValues \<Rightarrow> item \<times> item"

text \<open>The world of a call: the backend's state and the commands sent so far.\<close>

record 'b io =
  backend :: 'b
  sent :: "Command list"

definition client_send :: "'b deps \<Rightarrow> Command \<Rightarrow> 'b io \<Rightarrow> (error + CommandOutput) \<times> 'b io" where
  "client_send d c w =
     (case send d c (backend w) of
        (r, b') \<Rightarrow> (r, \<lparr>backend = b', sent = sent w @ [c]\<rparr>))"

definition tableName :: string where
  "tableName = ''messageStoreMessages''"

text \<open>\<open>options?.signal?.throwIfAborted()\<close>\<close>

definition throwIfAborted :: "MessageStoreOptions \<Rightarrow> error + unit" where
  "throwIfAborted options =
     (case options of
        None \<Rightarrow> Inr ()
      | Some signal \<Rightarrow> if aborted signal then Inl AbortError else Inr ())"

section \<open>The sort selector\<close>

definition extractSortProperties :: "MessageSort option \<Rightarrow> SortProperties" where
  "extractSortProperties messageSort =
     (case messageSort of
        None \<Rightarrow> \<lparr>property = ''messageTimestamp'', direction = Ascending\<rparr>
      | Some ms \<Rightarrow>
          (case dateCreated ms of
             Some d \<Rightarrow> \<lparr>property = ''dateCreated'', direction = d\<rparr>
           | None \<Rightarrow>
               (case datePublished ms of
                  Some d \<Rightarrow> \<lparr>property = ''datePublished'', direction = d\<rparr>
                | None \<Rightarrow>
                    (case messageTimestamp ms of
                       Some d \<Rightarrow> \<lparr>property = ''messageTimestamp'', direction = d\<rparr>
                     | None \<Rightarrow> \<lparr>property = ''messageTimestamp'', direction = Ascending\<rparr>))))"

section \<open>The physical query parameters\<close>

text \<open>
  \<open>cursorInputSort\<close>: the window is \<open>Limit = pagination.limit\<close> when the limit is a
  truthy number (present and not zero); the start key is the JSON text held in the
  cursor's \<open>messageCid\<close>. \<open>JSON.parse\<close> may throw, and the function rethrows.
\<close>

definition cursorInputSort ::
  "'b deps \<Rightarrow> string \<Rightarrow> Pagination option \<Rightarrow> string \<Rightarrow> SortDirection \<Rightarrow> error + QueryCommandInput" where
  "cursorInputSort d tenant pagination sortAttribute sortDirection =
     (let direction = (sortDirection = Ascending);
          params = \<lparr>TableName = tableName, KeyConditionTenant = tenant,
                    ScanIndexForward = direction, IndexName = None, Limit = None,
                    ExclusiveStartKey = None\<rparr>;
          params = (if sortAttribute \<noteq> []
                    then (let p = params\<lparr>IndexName := Some sortAttribute\<rparr>
                          in if direction then p\<lparr>ScanIndexForward := direction\<rparr> else p)
                    else params);
          params = (case pagination of
                      None \<Rightarrow> params
                    | Some pg \<Rightarrow>
                        (case limit pg of
                           None \<Rightarrow> params
                         | Some l \<Rightarrow> if l \<noteq> 0 then params\<lparr>Limit := Some l\<rparr> else params))
      in case pagination of
           None \<Rightarrow> Inr params
         | Some pg \<Rightarrow>
             (case cursor pg of
                None \<Rightarrow> Inr params
              | Some c \<Rightarrow>
                  (case JSON_parse d (messageCid c) of
                     Inl e \<Rightarrow> Inl e
                   | Inr k \<Rightarrow> Inr (params\<lparr>ExclusiveStartKey := Some k\<rparr>))))"

section \<open>The filter evaluator\<close>

text \<open>
  The test of one property of a clause:
  \<open>!item.hasOwnProperty(key) || item[key].S !== expectedValue\<close>. The strict
  inequality holds unless both sides are the same string.
\<close>

definition property_differs :: "item \<Rightarrow> string \<Rightarrow> FilterValue \<Rightarrow> bool" where
  "property_differs item key expectedValue =
     (case map_of item key of
        None \<Rightarrow> True
      | Some av \<Rightarrow>
          (case member_S av of
             None \<Rightarrow> True
           | Some s \<Rightarrow>
               (case expectedValue of
                  EqualString e \<Rightarrow> s \<noteq> e
                | _ \<Rightarrow> True)))"

text \<open>The inner loop over the keys of one clause, with its flag.\<close>

fun innerFilterMatch :: "item \<Rightarrow> Filter \<Rightarrow> bool \<Rightarrow> bool" where
  "innerFilterMatch item [] m = m"
| "innerFilterMatch item ((key, expectedValue) # rest) m =
     innerFilterMatch item rest (if property_differs item key expectedValue then False else m)"

text \<open>The outer loop over the clauses, with its counter.\<close>

fun filterMatchCount :: "item \<Rightarrow> Filter list \<Rightarrow> nat \<Rightarrow> nat" where
  "filterMatchCount item [] n = n"
| "filterMatchCount item (f # fs) n =
     filterMatchCount item fs (if innerFilterMatch item f True then n + 1 else n)"

definition item_included :: "Filter list \<Rightarrow> item \<Rightarrow> bool" where
  "item_included filters item = (filterMatchCount item filters 0 > 0)"

definition filteredItems :: "Filter list \<Rightarrow> item list \<Rightarrow> item list" where
  "filteredItems filters its = filter (item_included filters) its"

text \<open>
  The filter as the specification words it: an item passes when the clause list is
  empty, or when some clause has every one of its pairs equal, as strings, to the
  item's attribute of that name.
\<close>

definition pair_equal :: "item \<Rightarrow> string \<times> FilterValue \<Rightarrow> bool" where
  "pair_equal item kv =
     (case kv of (k, v) \<Rightarrow>
        (case map_of item k of
           Some (S s) \<Rightarrow> v = EqualString s
         | _ \<Rightarrow> False))"

definition spec_included :: "Filter list \<Rightarrow> item \<Rightarrow> bool" where
  "spec_included filters item =
     (filters = [] \<or> list_ex (\<lambda>clause. list_all (pair_equal item) clause) filters)"

section \<open>The content addresser as the store uses it\<close>

text \<open>
  \<open>getEncodedData\<close> (local to \<open>put\<close>): for a Records Write whose \<open>encodedData\<close> is
  truthy (present and not the empty string) the field is deleted from the message
  object itself and returned apart. The message returned is the caller's object.
\<close>

definition getEncodedData :: "GenericMessage \<Rightarrow> GenericMessage \<times> string option" where
  "getEncodedData message =
     (if interface (descriptor message) = ''Records'' \<and> methodName (descriptor message) = ''Write''
      then (case encodedData message of
              None \<Rightarrow> (message, None)
            | Some data \<Rightarrow>
                if data \<noteq> [] then (message\<lparr>encodedData := None\<rparr>, Some data)
                else (message, None))
      else (message, None))"

text \<open>\<open>executeUnlessAborted\<close> of the SDK: the promise's outcome unless the signal is aborted.\<close>

definition executeUnlessAborted :: "error + 'a \<Rightarrow> MessageStoreOptions \<Rightarrow> error + 'a" where
  "executeUnlessAborted promise options =
     (case throwIfAborted options of Inl e \<Rightarrow> Inl e | Inr _ \<Rightarrow> promise)"

definition parseEncodedMessage ::
  "'b deps \<Rightarrow> bytes \<Rightarrow> string option \<Rightarrow> MessageStoreOptions \<Rightarrow> error + GenericMessage" where
  "parseEncodedMessage d encodedMessageBytes encodedDataArg options =
     (case throwIfAborted options of
        Inl e \<Rightarrow> Inl e
      | Inr _ \<Rightarrow>
          (case block_decode d encodedMessageBytes of
             Inl e \<Rightarrow> Inl e
           | Inr message \<Rightarrow>
               (case encodedDataArg of
                  None \<Rightarrow> Inr message
                | Some data \<Rightarrow> Inr (message\<lparr>encodedData := Some data\<rparr>))))"

section \<open>The record table operations\<close>

text \<open>
  Assigning a property of an object replaces the value of an existing key in place and
  appends a new key; an object spread assigns the source's properties in order.
\<close>

fun set_property :: "string \<Rightarrow> 'v \<Rightarrow> (string \<times> 'v) list \<Rightarrow> (string \<times> 'v) list" where
  "set_property k v [] = [(k, v)]"
| "set_property k v ((k', v') # rest) =
     (if k = k' then (k, v) # rest else (k', v') # set_property k v rest)"

definition spread :: "(string \<times> 'v) list \<Rightarrow> (string \<times> 'v) list \<Rightarrow> (string \<times> 'v) list" where
  "spread target source = fold (\<lambda>kv obj. set_property (fst kv) (snd kv) obj) source target"

text \<open>
  \<open>put\<close> returns its outcome, the caller's message object as the call leaves it, and
  the world. The guard on \<open>this.#client\<close> of every operation never fires: the
  constructor assigns the client and nothing clears it. The \<open>catch\<close> around the write
  has an empty body, so the outcome of \<open>send\<close> is dropped.
\<close>

definition put ::
  "'b deps \<Rightarrow> string \<Rightarrow> GenericMessage \<Rightarrow> KeyValues \<Rightarrow> MessageStoreOptions \<Rightarrow> 'b io
     \<Rightarrow> (error + unit) \<times> GenericMessage \<times> 'b io" where
  "put d tenant message indexes options w =
     (case throwIfAborted options of
        Inl e \<Rightarrow> (Inl e, message, w)
      | Inr _ \<Rightarrow>
          (case getEncodedData message of
             (messageToProcess, encodedDataOut) \<Rightarrow>
               (case executeUnlessAborted (block_encode d messageToProcess) options of
                  Inl e \<Rightarrow> (Inl e, messageToProcess, w)
                | Inr (cid, encodedMessageBytes) \<Rightarrow>
                    (case extractTagsAndSanitizeIndexes d indexes of
                       (putIndexes, tags) \<Rightarrow>
                         (let base = [(''tenant'', S tenant), (''messageCid'', S cid),
                                      (''encodedMessageBytes'', B encodedMessageBytes)];
                              item0 = spread (spread base tags) putIndexes;
                              item1 = (case encodedDataOut of
                                         None \<Rightarrow> item0
                                       | Some data \<Rightarrow> set_property ''encodedData'' (S data) item0)
                          in case client_send d (PutItemCommand item1) w of
                               (r, w') \<Rightarrow> (Inr (), messageToProcess, w'))))))"

text \<open>
  The body of the \<open>try\<close> block of \<open>get\<close>. Reading \<open>.S\<close> or \<open>.B\<close> of a missing
  attribute is a TypeError; \<open>encodedData?.S\<close> of a missing attribute is \<open>undefined\<close>.
\<close>

definition get_try ::
  "'b deps \<Rightarrow> string \<Rightarrow> string \<Rightarrow> MessageStoreOptions \<Rightarrow> 'b io
     \<Rightarrow> (error + GenericMessage option) \<times> 'b io" where
  "get_try d tenant cid options w =
     (case throwIfAborted options of
        Inl e \<Rightarrow> (Inl e, w)
      | Inr _ \<Rightarrow>
          (case client_send d
                  (GetItemCommand [(''tenant'', S tenant), (''messageCid'', S cid)]
                     [''tenant'', ''messageCid'', ''encodedMessageBytes'', ''encodedData'']) w of
             (Inl e, w') \<Rightarrow> (Inl e, w')
           | (Inr response, w') \<Rightarrow>
               (case Item response of
                  None \<Rightarrow> (Inr None, w')
                | Some it \<Rightarrow>
                    (case (map_of it ''tenant'', map_of it ''messageCid'',
                           map_of it ''encodedMessageBytes'') of
                       (Some t, Some c, Some eb) \<Rightarrow>
                         (let encodedMessageBytes = (case member_B eb of Some b \<Rightarrow> b | None \<Rightarrow> []);
                              encodedDataArg = (case map_of it ''encodedData'' of
                                                  None \<Rightarrow> None
                                                | Some ed \<Rightarrow> member_S ed)
                          in case parseEncodedMessage d encodedMessageBytes encodedDataArg options of
                               Inl e \<Rightarrow> (Inl e, w')
                             | Inr m \<Rightarrow> (Inr (Some m), w'))
                     | _ \<Rightarrow> (Inl TypeError, w')))))"

text \<open>
  \<open>get\<close>: the \<open>catch\<close> has an empty body and nothing follows it, so every error of the
  block ends in the function returning \<open>undefined\<close>.
\<close>

definition get ::
  "'b deps \<Rightarrow> string \<Rightarrow> string \<Rightarrow> MessageStoreOptions \<Rightarrow> 'b io
     \<Rightarrow> (error + GenericMessage option) \<times> 'b io" where
  "get d tenant cid options w =
     (case get_try d tenant cid options w of
        (Inl e, w') \<Rightarrow> (Inr None, w')
      | (Inr r, w') \<Rightarrow> (Inr r, w'))"

definition delete ::
  "'b deps \<Rightarrow> string \<Rightarrow> string \<Rightarrow> MessageStoreOptions \<Rightarrow> 'b io \<Rightarrow> (error + unit) \<times> 'b io" where
  "delete d tenant cid options w =
     (case throwIfAborted options of
        Inl e \<Rightarrow> (Inl e, w)
      | Inr _ \<Rightarrow>
          (case client_send d
                  (DeleteItemCommand [(''tenant'', S tenant), (''messageCid'', S cid)]) w of
             (Inl e, w') \<Rightarrow> (Inl e, w')
           | (Inr _, w') \<Rightarrow> (Inr (), w')))"

text \<open>
  \<open>clear\<close> takes no argument. Its inner loop deletes each scanned item; its outer
  \<open>do ... while\<close> loop scans again while the scan reports a last evaluated key, which
  need not end, so the loop carries fuel and \<open>None\<close> stands for a loop still running.
  The \<open>catch\<close> logs the error and the function returns.
\<close>

fun clear_items :: "'b deps \<Rightarrow> item list \<Rightarrow> 'b io \<Rightarrow> (error + unit) \<times> 'b io" where
  "clear_items d [] w = (Inr (), w)"
| "clear_items d (it # rest) w =
     (case (map_of it ''tenant'', map_of it ''messageCid'') of
        (Some tv, Some cv) \<Rightarrow>
          (case (member_S tv, member_S cv) of
             (Some t, Some c) \<Rightarrow>
               (case client_send d
                       (DeleteItemCommand [(''tenant'', S t), (''messageCid'', S c)]) w of
                  (Inl e, w') \<Rightarrow> (Inl e, w')
                | (Inr _, w') \<Rightarrow> clear_items d rest w')
           | _ \<Rightarrow> (Inl TypeError, w))
      | _ \<Rightarrow> (Inl TypeError, w))"

fun clear_loop ::
  "nat \<Rightarrow> 'b deps \<Rightarrow> item option \<Rightarrow> 'b io \<Rightarrow> (error + unit) option \<times> 'b io" where
  "clear_loop 0 d start w = (None, w)"
| "clear_loop (Suc fuel) d start w =
     (case client_send d (ScanCommand start) w of
        (Inl e, w1) \<Rightarrow> (Some (Inl e), w1)
      | (Inr scanResult, w1) \<Rightarrow>
          (case Items scanResult of
             None \<Rightarrow> (Some (Inl TypeError), w1)
           | Some its \<Rightarrow>
               (case clear_items d its w1 of
                  (Inl e, w2) \<Rightarrow> (Some (Inl e), w2)
                | (Inr _, w2) \<Rightarrow>
                    (case LastEvaluatedKey scanResult of
                       None \<Rightarrow> (Some (Inr ()), w2)
                     | Some k \<Rightarrow> clear_loop fuel d (Some k) w2))))"

definition clear :: "nat \<Rightarrow> 'b deps \<Rightarrow> 'b io \<Rightarrow> (error + unit) option \<times> 'b io" where
  "clear fuel d w =
     (case clear_loop fuel d None w of
        (None, w') \<Rightarrow> (None, w')
      | (Some r, w') \<Rightarrow> (Some (Inr ()), w'))"

section \<open>The pagination engine\<close>

text \<open>
  The comparison \<open>data.LastEvaluatedKey[key] !== data.Items[n].S\<close> of \<open>query\<close>. Its left
  side is an attribute value object of the key; its right side is the attribute named
  \<open>S\<close> of an item, another object of the response or \<open>undefined\<close>. Strict inequality
  of objects compares identity, and the two are never the same object, so it holds
  whatever the values are.
\<close>

definition not_identical :: "AttributeValue \<Rightarrow> AttributeValue option \<Rightarrow> bool" where
  "not_identical keyValue itemMember = True"

text \<open>
  The loop over the keys of the last evaluated key. Reading \<open>.S\<close> of
  \<open>data.Items[data.ScannedCount - 1]\<close> is a TypeError when the index is out of range.
\<close>

fun key_matches :: "item \<Rightarrow> item list \<Rightarrow> nat \<Rightarrow> bool \<Rightarrow> error + bool" where
  "key_matches [] its scanned m = Inr m"
| "key_matches ((key, keyValue) # rest) its scanned m =
     (if scanned - 1 < length its
      then key_matches rest its scanned
             (if not_identical keyValue (map_of (its ! (scanned - 1)) ''S'') then False else m)
      else Inl TypeError)"

definition check_LastEvaluatedKey :: "CommandOutput \<Rightarrow> error + CommandOutput" where
  "check_LastEvaluatedKey data =
     (case (ScannedCount data, Items data, LastEvaluatedKey data) of
        (Some scanned, Some its, Some lek) \<Rightarrow>
          (if scanned > 0
           then (case key_matches lek its scanned True of
                   Inl e \<Rightarrow> Inl e
                 | Inr m \<Rightarrow> Inr (if m then data\<lparr>LastEvaluatedKey := None\<rparr> else data))
           else Inr data)
      | _ \<Rightarrow> Inr data)"

text \<open>
  The arguments of the calls of \<open>parseEncodedMessage\<close> in \<open>processPaginationResults\<close>:
  \<open>new Uint8Array(r.encodedMessageBytes.B)\<close> and \<open>r.encodedData?.S\<close>. They are computed
  while the array is mapped, so a missing \<open>encodedMessageBytes\<close> throws before any
  decoding is awaited.
\<close>

fun parse_arguments :: "item list \<Rightarrow> error + (bytes \<times> string option) list" where
  "parse_arguments [] = Inr []"
| "parse_arguments (r # rs) =
     (case map_of r ''encodedMessageBytes'' of
        None \<Rightarrow> Inl TypeError
      | Some eb \<Rightarrow>
          (case parse_arguments rs of
             Inl e \<Rightarrow> Inl e
           | Inr args \<Rightarrow>
               Inr ((case member_B eb of Some b \<Rightarrow> b | None \<Rightarrow> [],
                     case map_of r ''encodedData'' of None \<Rightarrow> None | Some ed \<Rightarrow> member_S ed)
                    # args)))"

fun parse_each ::
  "'b deps \<Rightarrow> (bytes \<times> string option) list \<Rightarrow> MessageStoreOptions \<Rightarrow> error + GenericMessage list" where
  "parse_each d [] options = Inr []"
| "parse_each d ((b, ed) # rest) options =
     (case parseEncodedMessage d b ed options of
        Inl e \<Rightarrow> Inl e
      | Inr m \<Rightarrow>
          (case parse_each d rest options of
             Inl e \<Rightarrow> Inl e
           | Inr ms \<Rightarrow> Inr (m # ms)))"

text \<open>
  \<open>processPaginationResults\<close>: the cursor is made of the last evaluated key alone,
  whatever the limit and the number of results; every result is decoded and returned.
\<close>

definition processPaginationResults ::
  "'b deps \<Rightarrow> item list \<Rightarrow> string \<Rightarrow> item option \<Rightarrow> nat option \<Rightarrow> MessageStoreOptions
     \<Rightarrow> error + QueryResult" where
  "processPaginationResults d results sortProperty lastEvaluatedKey limitArg options =
     (let cursorOut = (case lastEvaluatedKey of
                         None \<Rightarrow> None
                       | Some k \<Rightarrow> Some \<lparr>messageCid = JSON_stringify d k,
                                          cursor_value = JSON_stringify d k\<rparr>)
      in case parse_arguments results of
           Inl e \<Rightarrow> Inl e
         | Inr args \<Rightarrow>
             (case parse_each d args options of
                Inl e \<Rightarrow> Inl e
              | Inr ms \<Rightarrow> Inr \<lparr>messages = ms, result_cursor = cursorOut\<rparr>))"

text \<open>
  \<open>query\<close>: one query with the window of \<open>cursorInputSort\<close>, then the same query again
  with \<open>Limit\<close> deleted, whose answer is not read; then the filter over the items of the
  first answer. The \<open>catch\<close> rethrows.
\<close>

definition query ::
  "'b deps \<Rightarrow> string \<Rightarrow> Filter list \<Rightarrow> MessageSort option \<Rightarrow> Pagination option
     \<Rightarrow> MessageStoreOptions \<Rightarrow> 'b io \<Rightarrow> (error + QueryResult) \<times> 'b io" where
  "query d tenant filters messageSort pagination options w =
     (case throwIfAborted options of
        Inl e \<Rightarrow> (Inl e, w)
      | Inr _ \<Rightarrow>
          (let sp = extractSortProperties messageSort
           in case cursorInputSort d tenant pagination (property sp) (direction sp) of
                Inl e \<Rightarrow> (Inl e, w)
              | Inr params \<Rightarrow>
                  (case client_send d (QueryCommand params) w of
                     (Inl e, w1) \<Rightarrow> (Inl e, w1)
                   | (Inr data, w1) \<Rightarrow>
                       (case client_send d (QueryCommand (params\<lparr>Limit := None\<rparr>)) w1 of
                          (Inl e, w2) \<Rightarrow> (Inl e, w2)
                        | (Inr data2, w2) \<Rightarrow>
                            (case check_LastEvaluatedKey data of
                               Inl e \<Rightarrow> (Inl e, w2)
                             | Inr data' \<Rightarrow>
                                 (case Items data' of
                                    None \<Rightarrow> (Inr \<lparr>messages = [], result_cursor = None\<rparr>, w2)
                                  | Some its \<Rightarrow>
                                      (processPaginationResults d (filteredItems filters its)
                                         (property sp) (LastEvaluatedKey data')
                                         (case pagination of None \<Rightarrow> None | Some pg \<Rightarrow> limit pg)
                                         options, w2)))))))"

section \<open>A reference backend for running the store\<close>

text \<open>
  A table held as the list of its items, in ascending order of the index that is
  queried. A query answers with the items of the tenant's partition that carry the index
  attribute, in the direction asked, from just after the exclusive start key, cut at
  \<open>Limit\<close>; it reports the key of the last item read when the limit stopped it. A write
  can be made to fail.
\<close>

record table_backend =
  rows :: "item list"
  write_fails :: bool

definition same_key :: "item \<Rightarrow> item \<Rightarrow> bool" where
  "same_key k it =
     (map_of it ''tenant'' = map_of k ''tenant'' \<and> map_of it ''messageCid'' = map_of k ''messageCid'')"

definition key_of :: "string option \<Rightarrow> item \<Rightarrow> item" where
  "key_of index it =
     filter (\<lambda>kv. fst kv = ''tenant'' \<or> fst kv = ''messageCid'' \<or> Some (fst kv) = index) it"

definition index_range :: "QueryCommandInput \<Rightarrow> item list \<Rightarrow> item list" where
  "index_range p rs =
     (let partition = filter (\<lambda>it. map_of it ''tenant'' = Some (S (KeyConditionTenant p)) \<and>
                              (case IndexName p of None \<Rightarrow> True | Some a \<Rightarrow> map_of it a \<noteq> None)) rs;
          ordered = (if ScanIndexForward p then partition else rev partition)
      in case ExclusiveStartKey p of
           None \<Rightarrow> ordered
         | Some k \<Rightarrow> tl (dropWhile (\<lambda>it. \<not> same_key k it) ordered))"

definition table_query :: "QueryCommandInput \<Rightarrow> item list \<Rightarrow> CommandOutput" where
  "table_query p rs =
     (let remaining = index_range p rs;
          window = (case Limit p of None \<Rightarrow> remaining | Some n \<Rightarrow> take n remaining);
          lek = (case Limit p of
                   None \<Rightarrow> None
                 | Some n \<Rightarrow>
                     if 0 < n \<and> n \<le> length remaining
                     then Some (key_of (IndexName p) (last window)) else None)
      in \<lparr>Item = None, Items = Some window, ScannedCount = Some (length window),
          LastEvaluatedKey = lek\<rparr>)"

definition no_output :: CommandOutput where
  "no_output = \<lparr>Item = None, Items = None, ScannedCount = None, LastEvaluatedKey = None\<rparr>"

fun table_send :: "Command \<Rightarrow> table_backend \<Rightarrow> (error + CommandOutput) \<times> table_backend" where
  "table_send (PutItemCommand it) t =
     (if write_fails t then (Inl (BackendError ''PutItem''), t)
      else (Inr no_output, t\<lparr>rows := filter (\<lambda>r. \<not> same_key it r) (rows t) @ [it]\<rparr>))"
| "table_send (GetItemCommand k attrs) t =
     (Inr (no_output\<lparr>Item := map_option (filter (\<lambda>kv. fst kv \<in> set attrs))
                                (find (same_key k) (rows t))\<rparr>), t)"
| "table_send (QueryCommand p) t = (Inr (table_query p (rows t)), t)"
| "table_send (DeleteItemCommand k) t =
     (Inr no_output, t\<lparr>rows := filter (\<lambda>r. \<not> same_key k r) (rows t)\<rparr>)"
| "table_send (ScanCommand start) t =
     (Inr (no_output\<lparr>Items := Some (rows t), ScannedCount := Some (length (rows t))\<rparr>), t)"

text \<open>
  A codec given by a code book: a message of the book encodes to its identifier and
  bytes, bytes of the book decode to their message, anything else is an error.
\<close>

type_synonym codebook = "(GenericMessage \<times> string \<times> bytes) list"

definition book_encode :: "codebook \<Rightarrow> GenericMessage \<Rightarrow> error + (string \<times> bytes)" where
  "book_encode book m = (case map_of book m of None \<Rightarrow> Inl EncodeError | Some cb \<Rightarrow> Inr cb)"

definition book_decode :: "codebook \<Rightarrow> bytes \<Rightarrow> error + GenericMessage" where
  "book_decode book b =
     (case find (\<lambda>e. snd (snd e) = b) book of None \<Rightarrow> Inl DecodeError | Some e \<Rightarrow> Inr (fst e))"

text \<open>A key as text, \<open>name:value,\<close> for each string attribute, and its parser.\<close>

definition key_text :: "item \<Rightarrow> string" where
  "key_text k = concat (map (\<lambda>kv. fst kv @ '':'' @ (case member_S (snd kv) of Some s \<Rightarrow> s | None \<Rightarrow> []) @ '','') k)"

fun key_parse_from :: "string \<Rightarrow> string \<Rightarrow> string option \<Rightarrow> item \<Rightarrow> error + item" where
  "key_parse_from [] acc name its =
     (if acc = [] \<and> name = None then Inr (rev its) else Inl SyntaxError)"
| "key_parse_from (c # cs) acc name its =
     (if c = CHR '':''
      then (case name of
              None \<Rightarrow> key_parse_from cs [] (Some (rev acc)) its
            | Some _ \<Rightarrow> Inl SyntaxError)
      else if c = CHR '',''
      then (case name of
              None \<Rightarrow> Inl SyntaxError
            | Some n \<Rightarrow> key_parse_from cs [] None ((n, S (rev acc)) # its))
      else key_parse_from cs (c # acc) name its)"

definition key_parse :: "string \<Rightarrow> error + item" where
  "key_parse s = key_parse_from s [] None []"

text \<open>A sanitiser that keeps the string indexes as string attributes and has no tags.\<close>

definition string_indexes :: "KeyValues \<Rightarrow> item \<times> item" where
  "string_indexes indexes =
     (concat (map (\<lambda>kv. case snd kv of KString s \<Rightarrow> [(fst kv, S s)] | _ \<Rightarrow> []) indexes), [])"

definition table_deps :: "codebook \<Rightarrow> table_backend deps" where
  "table_deps book =
     \<lparr>send = table_send, block_encode = book_encode book, block_decode = book_decode book,
      JSON_stringify = key_text, JSON_parse = key_parse,
      extractTagsAndSanitizeIndexes = string_indexes\<rparr>"

text \<open>
  A backend that answers a query with no more than \<open>cap\<close> items at a time, whatever
  the \<open>Limit\<close>, as DynamoDB stops an answer at one megabyte, and reports the key of
  the last item read when it stopped there. Everything else is the table's.
\<close>

definition cutting_send ::
  "nat \<Rightarrow> Command \<Rightarrow> table_backend \<Rightarrow> (error + CommandOutput) \<times> table_backend" where
  "cutting_send cap c t =
     (case c of
        QueryCommand p \<Rightarrow>
          (Inr (table_query
                  (p\<lparr>Limit := Some (case Limit p of None \<Rightarrow> cap | Some n \<Rightarrow> min n cap)\<rparr>)
                  (rows t)), t)
      | _ \<Rightarrow> table_send c t)"

definition cutting_deps :: "nat \<Rightarrow> codebook \<Rightarrow> table_backend deps" where
  "cutting_deps cap bk = (table_deps bk)\<lparr>send := cutting_send cap\<rparr>"

subsection \<open>A small table\<close>

text \<open>
  Three Records Write messages of tenant \<open>T\<close>, a fourth that carries inline data and a
  fifth whose inline data is the empty string, with the code book of their encodings
  (the fourth is encoded without its data).
\<close>

definition records_write :: "string \<Rightarrow> string option \<Rightarrow> GenericMessage" where
  "records_write recordId inline =
     \<lparr>descriptor = \<lparr>interface = ''Records'', methodName = ''Write'', descriptor_fields = []\<rparr>,
      encodedData = inline, message_fields = [(''recordId'', recordId)]\<rparr>"

definition book :: codebook where
  "book = [(records_write ''a'' None, ''cidA'', [1]),
           (records_write ''b'' None, ''cidB'', [2]),
           (records_write ''c'' None, ''cidC'', [3]),
           (records_write ''d'' None, ''cidD'', [4]),
           (records_write ''e'' (Some []), ''cidE'', [5])]"

definition row :: "string \<Rightarrow> bytes \<Rightarrow> string \<Rightarrow> string \<Rightarrow> item" where
  "row cid bs time schema =
     [(''tenant'', S ''T''), (''messageCid'', S cid), (''encodedMessageBytes'', B bs),
      (''messageTimestamp'', S time), (''schema'', S schema)]"

definition row_a :: item where "row_a = row ''cidA'' [1] ''1'' ''x''"
definition row_b :: item where "row_b = row ''cidB'' [2] ''2'' ''y''"
definition row_c :: item where "row_c = row ''cidC'' [3] ''3'' ''y''"

text \<open>A row whose bytes are no encoding of any message.\<close>

definition row_corrupt :: item where "row_corrupt = row ''cidX'' [255] ''4'' ''y''"

definition world :: "item list \<Rightarrow> bool \<Rightarrow> table_backend io" where
  "world rs failing = \<lparr>backend = \<lparr>rows = rs, write_fails = failing\<rparr>, sent = []\<rparr>"

definition page :: "nat \<Rightarrow> Pagination option" where
  "page n = Some \<lparr>cursor = None, limit = Some n\<rparr>"

definition aborted_signal :: MessageStoreOptions where
  "aborted_signal = Some \<lparr>aborted = True\<rparr>"

section \<open>The specification's vocabulary\<close>



text \<open>A pagination whose limit is absent or zero.\<close>

definition unbounded :: "Pagination option \<Rightarrow> bool" where
  "unbounded pagination =
     (case pagination of
        None \<Rightarrow> True
      | Some pg \<Rightarrow> (case limit pg of None \<Rightarrow> True | Some l \<Rightarrow> l = 0))"

text \<open>
  The caller of the pagination contract: call \<open>query\<close> with the limit, feed each
  returned cursor into the next call, collect the pages, stop at a page without cursor.
  The loop carries fuel; \<open>None\<close> stands for a loop still running.
\<close>

fun pages ::
  "nat \<Rightarrow> 'b deps \<Rightarrow> string \<Rightarrow> Filter list \<Rightarrow> MessageSort option \<Rightarrow> nat
     \<Rightarrow> PaginationCursor option \<Rightarrow> 'b io \<Rightarrow> (error + GenericMessage list list) option" where
  "pages 0 d tenant filters messageSort l cur w = None"
| "pages (Suc fuel) d tenant filters messageSort l cur w =
     (case query d tenant filters messageSort (Some \<lparr>cursor = cur, limit = Some l\<rparr>) None w of
        (Inl e, w') \<Rightarrow> Some (Inl e)
      | (Inr r, w') \<Rightarrow>
          (case result_cursor r of
             None \<Rightarrow> Some (Inr [messages r])
           | Some c \<Rightarrow>
               (case pages fuel d tenant filters messageSort l (Some c) w' of
                  None \<Rightarrow> None
                | Some (Inl e) \<Rightarrow> Some (Inl e)
                | Some (Inr ps) \<Rightarrow> Some (Inr (messages r # ps)))))"

text \<open>
  The messages of a list of items, as \<open>processPaginationResults\<close> decodes them; the
  cursor made of a key; the primary key of an item; and the parameters of the window
  query of a page.
\<close>

definition decoded :: "'b deps \<Rightarrow> item list \<Rightarrow> MessageStoreOptions \<Rightarrow> error + GenericMessage list" where
  "decoded d its options =
     (case parse_arguments its of Inl e \<Rightarrow> Inl e | Inr args \<Rightarrow> parse_each d args options)"

definition cursor_of_key :: "'b deps \<Rightarrow> item \<Rightarrow> PaginationCursor" where
  "cursor_of_key d k = \<lparr>messageCid = JSON_stringify d k, cursor_value = JSON_stringify d k\<rparr>"

definition primary_key :: "item \<Rightarrow> AttributeValue option \<times> AttributeValue option" where
  "primary_key it = (map_of it ''tenant'', map_of it ''messageCid'')"

definition page_params :: "string \<Rightarrow> MessageSort option \<Rightarrow> nat \<Rightarrow> item option \<Rightarrow> QueryCommandInput" where
  "page_params tenant messageSort l start =
     \<lparr>TableName = tableName, KeyConditionTenant = tenant,
      ScanIndexForward = (direction (extractSortProperties messageSort) = Ascending),
      IndexName = Some (property (extractSortProperties messageSort)),
      Limit = Some l, ExclusiveStartKey = start\<rparr>"

section \<open>The filter evaluator is a disjunction of conjunctions\<close>

lemma innerFilterMatch_all:
  "innerFilterMatch item f m = (m \<and> list_all (\<lambda>kv. \<not> property_differs item (fst kv) (snd kv)) f)"
  by (induction f arbitrary: m) (simp_all add: split_paired_all)

lemma filterMatchCount_length:
  "filterMatchCount item fs n = n + length (filter (\<lambda>f. innerFilterMatch item f True) fs)"
  by (induction fs arbitrary: n) simp_all

lemma property_differs_pair_equal:
  "(\<not> property_differs item (fst kv) (snd kv)) = pair_equal item kv"
proof (cases kv)
  case (Pair k v)
  show ?thesis
  proof (cases "map_of item k")
    case None
    then show ?thesis by (simp add: Pair property_differs_def pair_equal_def)
  next
    case (Some av)
    then show ?thesis
      by (cases av; cases v) (simp_all add: Pair property_differs_def pair_equal_def eq_commute)
  qed
qed

lemma item_included_dnf:
  "item_included filters item = list_ex (list_all (pair_equal item)) filters"
proof -
  have "item_included filters item = (filter (\<lambda>f. innerFilterMatch item f True) filters \<noteq> [])"
    by (simp add: item_included_def filterMatchCount_length)
  also have "\<dots> = (\<exists>f \<in> set filters. innerFilterMatch item f True)"
    by (simp add: filter_empty_conv)
  also have "\<dots> = list_ex (list_all (pair_equal item)) filters"
    by (simp add: innerFilterMatch_all property_differs_pair_equal list_ex_iff)
  finally show ?thesis .
qed

text \<open>
  With at least one clause the code and the specification agree: an item is kept exactly
  when some clause has all its pairs equal to the item's string attributes; a clause
  naming an absent attribute just does not match.
\<close>

lemma item_included_nonempty:
  "filters \<noteq> [] \<Longrightarrow> item_included filters item = spec_included filters item"
  by (simp add: item_included_dnf spec_included_def)

lemma absent_attribute_clause_fails:
  "map_of item k = None \<Longrightarrow> (k, v) \<in> set clause \<Longrightarrow> \<not> innerFilterMatch item clause True"
proof -
  assume absent: "map_of item k = None" and named: "(k, v) \<in> set clause"
  have "property_differs item (fst (k, v)) (snd (k, v))"
    using absent by (simp add: property_differs_def)
  with named have "\<exists>kv \<in> set clause. property_differs item (fst kv) (snd kv)"
    by blast
  then show ?thesis
    by (simp add: innerFilterMatch_all list_all_iff)
qed

text \<open>
  C2. The specification lets every item pass when the clause list is empty. The code
  counts the matching clauses and keeps an item when the count is positive, so with no
  clause it keeps no item: the filter of an empty clause list returns the empty list,
  while every item is included in the specification's sense.
\<close>

theorem empty_clause_list_excludes_every_item:
  "filteredItems [] its = [] \<and> list_all (spec_included []) its"
  by (simp add: filteredItems_def item_included_def spec_included_def list_all_iff)

section \<open>Encoding and decoding\<close>

text \<open>
  C7. Take a message, strip it as \<open>put\<close> does, and encode what is left. If the codec
  decodes these bytes back to what it encoded, then \<open>parseEncodedMessage\<close>, given the
  bytes and the inline data that was set apart, returns the message that was put. On the
  small table, a \<open>get\<close> after the \<open>put\<close> of a message with inline data returns that
  message.
\<close>

theorem decode_reattaches_inline_data:
  assumes "getEncodedData m = (m', inline)"
    and "block_encode d m' = Inr (cid, bs)"
    and "block_decode d bs = Inr m'"
    and "throwIfAborted options = Inr ()"
  shows "parseEncodedMessage d bs inline options = Inr m"
proof (cases "inline")
  case None
  with assms(1) have "m' = m"
    by (auto simp: getEncodedData_def split: if_splits option.splits)
  with None assms show ?thesis by (simp add: parseEncodedMessage_def)
next
  case (Some data)
  with assms(1) have "m' = m\<lparr>encodedData := None\<rparr>" and "encodedData m = Some data"
    by (auto simp: getEncodedData_def split: if_splits option.splits)
  then have "m'\<lparr>encodedData := Some data\<rparr> = m" by simp
  with Some assms show ?thesis by (simp add: parseEncodedMessage_def)
qed

theorem decode_reattaches_witness:
  "getEncodedData (records_write ''d'' (Some ''aGk'')) = (records_write ''d'' None, Some ''aGk'') \<and>
   block_encode (table_deps book) (records_write ''d'' None) = Inr (''cidD'', [4]) \<and>
   block_decode (table_deps book) [4] = Inr (records_write ''d'' None) \<and>
   parseEncodedMessage (table_deps book) [4] (Some ''aGk'') None = Inr (records_write ''d'' (Some ''aGk'')) \<and>
   fst (get (table_deps book) ''T'' ''cidD'' None
          (snd (snd (put (table_deps book) ''T'' (records_write ''d'' (Some ''aGk'')) [] None
                       (world [] False))))) =
     Inr (Some (records_write ''d'' (Some ''aGk'')))"
proof -
  have 1: "getEncodedData (records_write ''d'' (Some ''aGk'')) = (records_write ''d'' None, Some ''aGk'')"
    by (simp add: getEncodedData_def records_write_def)
  have 2: "block_encode (table_deps book) (records_write ''d'' None) = Inr (''cidD'', [4])"
    by (simp add: table_deps_def book_encode_def book_def records_write_def)
  have 3: "block_decode (table_deps book) [4] = Inr (records_write ''d'' None)"
    by (simp add: table_deps_def book_decode_def book_def)
  have 4: "throwIfAborted None = Inr ()"
    by (simp add: throwIfAborted_def)
  have 5: "fst (get (table_deps book) ''T'' ''cidD'' None
          (snd (snd (put (table_deps book) ''T'' (records_write ''d'' (Some ''aGk'')) [] None
                       (world [] False))))) =
     Inr (Some (records_write ''d'' (Some ''aGk'')))"
    by code_simp
  from decode_reattaches_inline_data [OF 1 2 3 4] 1 2 3 5 show ?thesis by simp
qed

section \<open>The caller's message after a put\<close>

text \<open>
  C10, as amended. When \<open>put\<close> returns normally and the message is a Records Write
  carrying a non-empty \<open>encodedData\<close> string, the caller's message object is left
  without that field, its descriptor and every other field unchanged.
\<close>

theorem put_deletes_nonempty_inline_data:
  assumes "fst (put d tenant m indexes options w) = Inr ()"
    and "interface (descriptor m) = ''Records''"
    and "methodName (descriptor m) = ''Write''"
    and "encodedData m = Some data"
    and "data \<noteq> []"
  shows "fst (snd (put d tenant m indexes options w)) = m\<lparr>encodedData := None\<rparr> \<and>
         encodedData (fst (snd (put d tenant m indexes options w))) = None \<and>
         descriptor (fst (snd (put d tenant m indexes options w))) = descriptor m \<and>
         message_fields (fst (snd (put d tenant m indexes options w))) = message_fields m"
proof -
  have strip: "getEncodedData m = (m\<lparr>encodedData := None\<rparr>, Some data)"
    using assms(2-5) by (simp add: getEncodedData_def)
  have live: "throwIfAborted options = Inr ()"
    using assms(1) by (cases "throwIfAborted options") (simp_all add: put_def)
  have "fst (snd (put d tenant m indexes options w)) = m\<lparr>encodedData := None\<rparr>"
    using strip live
    by (simp add: put_def Let_def split: sum.splits prod.splits)
  then show ?thesis by simp
qed

theorem put_deletes_inline_data_witness:
  "fst (put (table_deps book) ''T'' (records_write ''d'' (Some ''aGk'')) [] None (world [] False)) = Inr () \<and>
   fst (snd (put (table_deps book) ''T'' (records_write ''d'' (Some ''aGk'')) [] None (world [] False)))
     = records_write ''d'' None"
proof -
  have 1: "fst (put (table_deps book) ''T'' (records_write ''d'' (Some ''aGk'')) [] None (world [] False)) = Inr ()"
    by code_simp
  have 2: "interface (descriptor (records_write ''d'' (Some ''aGk''))) = ''Records''"
    by (simp add: records_write_def)
  have 3: "methodName (descriptor (records_write ''d'' (Some ''aGk''))) = ''Write''"
    by (simp add: records_write_def)
  have 4: "encodedData (records_write ''d'' (Some ''aGk'')) = Some ''aGk''"
    by (simp add: records_write_def)
  have 5: "''aGk'' \<noteq> []" by simp
  have 6: "(records_write ''d'' (Some ''aGk''))\<lparr>encodedData := None\<rparr> = records_write ''d'' None"
    by (simp add: records_write_def)
  from put_deletes_nonempty_inline_data [OF 1 2 3 4 5] 1 6 show ?thesis by simp
qed

text \<open>
  C10 as stated fails for a Records Write whose \<open>encodedData\<close> is the empty string:
  the guard \<open>if(data)\<close> is false for it, and the field is still on the message when
  \<open>put\<close> has returned.
\<close>

theorem empty_inline_data_is_left_in_place:
  "fst (put (table_deps book) ''T'' (records_write ''e'' (Some [])) [] None (world [] False)) = Inr () \<and>
   interface (descriptor (records_write ''e'' (Some []))) = ''Records'' \<and>
   methodName (descriptor (records_write ''e'' (Some []))) = ''Write'' \<and>
   encodedData (records_write ''e'' (Some [])) = Some [] \<and>
   encodedData (fst (snd (put (table_deps book) ''T'' (records_write ''e'' (Some [])) [] None (world [] False)))) = Some []"
  by code_simp

section \<open>Errors of the backend and of the codec\<close>

text \<open>
  Whenever the signal is not aborted and the message encodes, \<open>put\<close> returns normally,
  whatever the backend answers to the write.
\<close>

lemma put_never_reports_the_write:
  "throwIfAborted options = Inr () \<Longrightarrow>
   block_encode d (fst (getEncodedData m)) = Inr cb \<Longrightarrow>
   fst (put d tenant m indexes options w) = Inr ()"
  by (cases "getEncodedData m")
     (simp add: put_def executeUnlessAborted_def Let_def split: prod.splits sum.splits)

text \<open>
  C5. On a table that rejects the write, the client's \<open>send\<close> fails with a backend
  error, and \<open>put\<close> returns normally with nothing stored: the failure does not reach
  the caller.
\<close>

theorem put_swallows_failed_write:
  "send (table_deps book)
       (PutItemCommand [(''tenant'', S ''T''), (''messageCid'', S ''cidA''), (''encodedMessageBytes'', B [1])])
       \<lparr>rows = [], write_fails = True\<rparr>
     = (Inl (BackendError ''PutItem''), \<lparr>rows = [], write_fails = True\<rparr>) \<and>
   put (table_deps book) ''T'' (records_write ''a'' None) [] None (world [] True)
     = (Inr (), records_write ''a'' None,
        \<lparr>backend = \<lparr>rows = [], write_fails = True\<rparr>,
         sent = [PutItemCommand [(''tenant'', S ''T''), (''messageCid'', S ''cidA''),
                                 (''encodedMessageBytes'', B [1])]]\<rparr>)"
  by code_simp

text \<open>\<open>get\<close> has no failing outcome at all.\<close>

lemma get_never_fails: "\<exists>r. fst (get d tenant cid options w) = Inr r"
  by (simp add: get_def split: prod.splits sum.splits)

text \<open>
  C6. For a stored record whose bytes do not decode, \<open>parseEncodedMessage\<close> fails with
  the decode error, and the body of \<open>get\<close> fails with it; \<open>get\<close> itself returns
  \<open>undefined\<close>, the same answer as for a key that is not in the table. \<open>query\<close> over
  the same table does surface the error.
\<close>

theorem get_swallows_decode_error:
  "parseEncodedMessage (table_deps book) [255] None None = Inl DecodeError \<and>
   fst (get_try (table_deps book) ''T'' ''cidX'' None (world [row_a, row_corrupt] False)) = Inl DecodeError \<and>
   fst (get (table_deps book) ''T'' ''cidX'' None (world [row_a, row_corrupt] False)) = Inr None \<and>
   fst (get (table_deps book) ''T'' ''cidZ'' None (world [row_a, row_corrupt] False)) = Inr None \<and>
   fst (query (table_deps book) ''T'' [[]] None None None (world [row_a, row_corrupt] False)) = Inl DecodeError"
  by code_simp

section \<open>Cancellation\<close>

text \<open>Every command the client sends is appended to the record of sent commands.\<close>

lemma client_send_sent: "sent (snd (client_send d c w)) = sent w @ [c]"
  by (simp add: client_send_def split: prod.splits)

lemma clear_items_sent: "\<exists>cs. sent (snd (clear_items d its w)) = sent w @ cs"
proof (induction its arbitrary: w)
  case Nil
  show ?case by simp
next
  case (Cons it rest)
  show ?case
  proof (cases "map_of it ''tenant''")
    case None
    then show ?thesis by simp
  next
    case tv: (Some tv)
    show ?thesis
    proof (cases "map_of it ''messageCid''")
      case None
      with tv show ?thesis by simp
    next
      case cv: (Some cv)
      show ?thesis
      proof (cases "member_S tv")
        case None
        with tv cv show ?thesis by simp
      next
        case t: (Some t)
        show ?thesis
        proof (cases "member_S cv")
          case None
          with tv cv t show ?thesis by simp
        next
          case c: (Some c)
          let ?cmd = "DeleteItemCommand [(''tenant'', S t), (''messageCid'', S c)]"
          obtain r w' where s: "client_send d ?cmd w = (r, w')"
            by (cases "client_send d ?cmd w")
          have w': "sent w' = sent w @ [?cmd]"
            using client_send_sent [of d ?cmd w] s by simp
          show ?thesis
          proof (cases r)
            case (Inl e)
            with tv cv t c s w' show ?thesis by simp
          next
            case (Inr out)
            from Cons.IH [of w'] obtain cs where "sent (snd (clear_items d rest w')) = sent w' @ cs" ..
            with Inr tv cv t c s w' show ?thesis by simp
          qed
        qed
      qed
    qed
  qed
qed

lemma clear_loop_sent: "\<exists>cs. sent (snd (clear_loop fuel d start w)) = sent w @ cs"
proof (induction fuel arbitrary: start w)
  case 0
  show ?case by simp
next
  case (Suc fuel)
  obtain r w1 where s: "client_send d (ScanCommand start) w = (r, w1)"
    by (cases "client_send d (ScanCommand start) w")
  have w1: "sent w1 = sent w @ [ScanCommand start]"
    using client_send_sent [of d "ScanCommand start" w] s by simp
  show ?case
  proof (cases r)
    case (Inl e)
    with s w1 show ?thesis by simp
  next
    case (Inr scanResult)
    show ?thesis
    proof (cases "Items scanResult")
      case None
      with Inr s w1 show ?thesis by simp
    next
      case (Some its)
      obtain r2 w2 where c: "clear_items d its w1 = (r2, w2)"
        by (cases "clear_items d its w1")
      from clear_items_sent [of d its w1] c obtain cs where w2: "sent w2 = sent w1 @ cs"
        by auto
      show ?thesis
      proof (cases r2)
        case (Inl e)
        with Inr Some s c w1 w2 show ?thesis by simp
      next
        case r2: (Inr u)
        show ?thesis
        proof (cases "LastEvaluatedKey scanResult")
          case None
          with Inr Some s c r2 w1 w2 show ?thesis by simp
        next
          case (Some k)
          from Suc.IH [of "Some k" w2] obtain cs' where
            "sent (snd (clear_loop fuel d (Some k) w2)) = sent w2 @ cs'" ..
          with Inr \<open>Items scanResult = Some its\<close> Some s c r2 w1 w2 show ?thesis by simp
        qed
      qed
    qed
  qed
qed

lemma clear_loop_scans_first:
  "\<exists>cs. sent (snd (clear_loop (Suc fuel) d start w)) = sent w @ ScanCommand start # cs"
proof -
  obtain r w1 where s: "client_send d (ScanCommand start) w = (r, w1)"
    by (cases "client_send d (ScanCommand start) w")
  have w1: "sent w1 = sent w @ [ScanCommand start]"
    using client_send_sent [of d "ScanCommand start" w] s by simp
  show ?thesis
  proof (cases r)
    case (Inl e)
    with s w1 show ?thesis by simp
  next
    case (Inr scanResult)
    show ?thesis
    proof (cases "Items scanResult")
      case None
      with Inr s w1 show ?thesis by simp
    next
      case (Some its)
      obtain r2 w2 where c: "clear_items d its w1 = (r2, w2)"
        by (cases "clear_items d its w1")
      from clear_items_sent [of d its w1] c obtain cs where w2: "sent w2 = sent w1 @ cs"
        by auto
      show ?thesis
      proof (cases r2)
        case (Inl e)
        with Inr Some s c w1 w2 show ?thesis by simp
      next
        case r2: (Inr u)
        show ?thesis
        proof (cases "LastEvaluatedKey scanResult")
          case None
          with Inr Some s c r2 w1 w2 show ?thesis by simp
        next
          case (Some k)
          from clear_loop_sent [of fuel d "Some k" w2] obtain cs' where
            "sent (snd (clear_loop fuel d (Some k) w2)) = sent w2 @ cs'" ..
          with Inr \<open>Items scanResult = Some its\<close> Some s c r2 w1 w2 show ?thesis by simp
        qed
      qed
    qed
  qed
qed

lemma clear_sent: "sent (snd (clear fuel d w)) = sent (snd (clear_loop fuel d None w))"
  by (simp add: clear_def split: prod.splits option.splits)

text \<open>
  \<open>put\<close>, \<open>query\<close> and \<open>delete\<close>, called with a signal that is already aborted,
  fail with the abort error and leave the world as it was: no command is sent, and
  \<open>put\<close> has not touched the message. \<open>clear\<close> has no signal to look at: given any
  fuel at all, the first thing it does is send a scan.
\<close>

lemma aborted_call_fails_before_any_command:
  "put d tenant m indexes aborted_signal w = (Inl AbortError, m, w) \<and>
   query d tenant filters messageSort pagination aborted_signal w = (Inl AbortError, w) \<and>
   delete d tenant cid aborted_signal w = (Inl AbortError, w) \<and>
   (\<exists>cs. sent (snd (clear (Suc fuel) d w)) = sent w @ ScanCommand None # cs)"
proof (intro conjI)
  show "put d tenant m indexes aborted_signal w = (Inl AbortError, m, w)"
    by (simp add: put_def throwIfAborted_def aborted_signal_def)
  show "query d tenant filters messageSort pagination aborted_signal w = (Inl AbortError, w)"
    by (simp add: query_def throwIfAborted_def aborted_signal_def)
  show "delete d tenant cid aborted_signal w = (Inl AbortError, w)"
    by (simp add: delete_def throwIfAborted_def aborted_signal_def)
  show "\<exists>cs. sent (snd (clear (Suc fuel) d w)) = sent w @ ScanCommand None # cs"
    using clear_loop_scans_first [of fuel d None w] by (simp only: clear_sent)
qed

text \<open>
  C8. Every operation should fail at once when its signal is already aborted. \<open>get\<close>
  does not: its check of the signal is inside the \<open>try\<close> block whose \<open>catch\<close> is
  empty, so the call with an aborted signal sends nothing and returns \<open>undefined\<close>, as
  if the record were not stored, where \<open>delete\<close> with the same arguments fails with
  the abort error; without the signal the record is there.
\<close>

theorem aborted_get_returns_normally:
  "get (table_deps book) ''T'' ''cidA'' aborted_signal (world [row_a] False) =
     (Inr None, world [row_a] False) \<and>
   delete (table_deps book) ''T'' ''cidA'' aborted_signal (world [row_a] False) =
     (Inl AbortError, world [row_a] False) \<and>
   fst (get (table_deps book) ''T'' ''cidA'' None (world [row_a] False)) =
     Inr (Some (records_write ''a'' None))"
  by code_simp

section \<open>The query follows the sort selector\<close>




section \<open>Pagination\<close>

text \<open>
  \<open>query\<close> sends at most two commands, whatever the limit and the filters: the
  windowed query and the same query without its limit.
\<close>

lemma query_sends_at_most_two:
  "\<exists>cs. sent (snd (query d tenant filters messageSort pagination options w)) = sent w @ cs \<and> length cs \<le> 2"
proof (cases "throwIfAborted options")
  case (Inl e)
  then show ?thesis by (simp add: query_def)
next
  case live: (Inr u)
  let ?sp = "extractSortProperties messageSort"
  show ?thesis
  proof (cases "cursorInputSort d tenant pagination (property ?sp) (direction ?sp)")
    case (Inl e)
    with live show ?thesis by (simp add: query_def Let_def)
  next
    case params: (Inr params)
    obtain r1 w1 where s1: "client_send d (QueryCommand params) w = (r1, w1)"
      by (cases "client_send d (QueryCommand params) w")
    have w1: "sent w1 = sent w @ [QueryCommand params]"
      using client_send_sent [of d "QueryCommand params" w] s1 by simp
    show ?thesis
    proof (cases r1)
      case (Inl e)
      with live params s1 w1 show ?thesis by (simp add: query_def Let_def)
    next
      case data: (Inr data)
      let ?c2 = "QueryCommand (params\<lparr>Limit := None\<rparr>)"
      obtain r2 w2 where s2: "client_send d ?c2 w1 = (r2, w2)"
        by (cases "client_send d ?c2 w1")
      have w2: "sent w2 = sent w @ [QueryCommand params, ?c2]"
        using client_send_sent [of d ?c2 w1] s2 w1 by simp
      have "snd (query d tenant filters messageSort pagination options w) = w2"
        using live params s1 data s2
        by (cases r2) (simp_all add: query_def Let_def split: sum.splits option.splits)
      with w2 show ?thesis by simp
    qed
  qed
qed

text \<open>
  C1. A table of tenant \<open>T\<close> holds two records in index order, of which only the second
  matches the filter; the limit is 1. One record matches, so the first page should hold
  it. The window of one item holds the record that does not match: the first page is
  empty and carries a cursor, and the matching record comes with the second call. The
  two commands sent are the window of \<open>Limit = 1\<close> and the query without a limit,
  whose answer is dropped.
\<close>

theorem filtered_page_is_underfilled:
  "filteredItems [[(''schema'', EqualString ''y'')]] [row_a, row_b] = [row_b] \<and>
   query (table_deps book) ''T'' [[(''schema'', EqualString ''y'')]] None (page 1) None
       (world [row_a, row_b] False) =
     (Inr \<lparr>messages = [],
           result_cursor = Some \<lparr>messageCid = ''tenant:T,messageCid:cidA,messageTimestamp:1,'',
                                 cursor_value = ''tenant:T,messageCid:cidA,messageTimestamp:1,''\<rparr>\<rparr>,
      \<lparr>backend = \<lparr>rows = [row_a, row_b], write_fails = False\<rparr>,
       sent = [QueryCommand \<lparr>TableName = ''messageStoreMessages'', KeyConditionTenant = ''T'',
                             ScanIndexForward = True, IndexName = Some ''messageTimestamp'',
                             Limit = Some 1, ExclusiveStartKey = None\<rparr>,
               QueryCommand \<lparr>TableName = ''messageStoreMessages'', KeyConditionTenant = ''T'',
                             ScanIndexForward = True, IndexName = Some ''messageTimestamp'',
                             Limit = None, ExclusiveStartKey = None\<rparr>]\<rparr>) \<and>
   fst (query (table_deps book) ''T'' [[(''schema'', EqualString ''y'')]] None
          (Some \<lparr>cursor = Some \<lparr>messageCid = ''tenant:T,messageCid:cidA,messageTimestamp:1,'',
                                 cursor_value = ''tenant:T,messageCid:cidA,messageTimestamp:1,''\<rparr>,
                 limit = Some 1\<rparr>) None (world [row_a, row_b] False)) =
     Inr \<lparr>messages = [records_write ''b'' None],
          result_cursor = Some \<lparr>messageCid = ''tenant:T,messageCid:cidB,messageTimestamp:2,'',
                                cursor_value = ''tenant:T,messageCid:cidB,messageTimestamp:2,''\<rparr>\<rparr>"
  by code_simp

text \<open>
  \<open>processPaginationResults\<close> returns one message for each result it is given and a
  cursor exactly when it is given a last evaluated key; the limit plays no part.
\<close>

lemma parse_arguments_length: "parse_arguments rs = Inr args \<Longrightarrow> length args = length rs"
  by (induction rs arbitrary: args) (auto split: option.splits sum.splits)

lemma parse_each_length: "parse_each d args options = Inr ms \<Longrightarrow> length ms = length args"
  by (induction args arbitrary: ms) (auto split: sum.splits)

lemma processPaginationResults_keeps_all:
  assumes "processPaginationResults d results sortProperty lek limitArg options = Inr r"
  shows "length (messages r) = length results"
    and "(result_cursor r = None) = (lek = None)"
proof -
  from assms obtain args ms where
    a: "parse_arguments results = Inr args" and m: "parse_each d args options = Inr ms"
    and r: "r = \<lparr>messages = ms, result_cursor = (case lek of None \<Rightarrow> None
             | Some k \<Rightarrow> Some \<lparr>messageCid = JSON_stringify d k, cursor_value = JSON_stringify d k\<rparr>)\<rparr>"
    by (auto simp: processPaginationResults_def Let_def split: sum.splits)
  show "length (messages r) = length results"
    using parse_arguments_length [OF a] parse_each_length [OF m] r by simp
  show "(result_cursor r = None) = (lek = None)"
    using r by (simp split: option.splits)
qed

text \<open>
  C3. Given three results and the limit 2, \<open>processPaginationResults\<close> returns all
  three and no cursor: nothing is cut at the limit, and no cursor is made of the last
  item kept. And over a table of exactly two matching records, \<open>query\<close> with the limit
  2 returns both with a cursor, although the index is exhausted; the call that follows
  that cursor returns an empty page.
\<close>

theorem page_is_not_cut_at_the_limit:
  "processPaginationResults (table_deps book) [row_a, row_b, row_c] ''messageTimestamp'' None (Some 2) None =
     Inr \<lparr>messages = [records_write ''a'' None, records_write ''b'' None, records_write ''c'' None],
          result_cursor = None\<rparr> \<and>
   fst (query (table_deps book) ''T'' [[]] None (page 2) None (world [row_a, row_b] False)) =
     Inr \<lparr>messages = [records_write ''a'' None, records_write ''b'' None],
          result_cursor = Some \<lparr>messageCid = ''tenant:T,messageCid:cidB,messageTimestamp:2,'',
                                cursor_value = ''tenant:T,messageCid:cidB,messageTimestamp:2,''\<rparr>\<rparr> \<and>
   fst (query (table_deps book) ''T'' [[]] None
          (Some \<lparr>cursor = Some \<lparr>messageCid = ''tenant:T,messageCid:cidB,messageTimestamp:2,'',
                                 cursor_value = ''tenant:T,messageCid:cidB,messageTimestamp:2,''\<rparr>,
                 limit = Some 2\<rparr>) None (world [row_a, row_b] False)) =
     Inr \<lparr>messages = [], result_cursor = None\<rparr>"
  by code_simp

section \<open>The unbounded query\<close>

lemma cursorInputSort_unbounded:
  "unbounded pagination \<Longrightarrow> cursorInputSort d tenant pagination a dir = Inr params \<Longrightarrow> Limit params = None"
  by (auto simp: unbounded_def cursorInputSort_def Let_def split: option.splits sum.splits if_splits)

text \<open>
  Let the limit be absent or zero, the signal not aborted, and the backend the reference
  table, which answers a query without \<open>Limit\<close> with the whole range. Then the
  parameters carry no \<open>Limit\<close>, and if the cursor (when there is one) parses and the
  stored bytes decode, \<open>query\<close> returns the decoded messages of all items of the
  tenant's index range that pass the filter, as many as there are, and no cursor.
\<close>

lemma unbounded_query_returns_all:
  assumes "unbounded pagination"
    and "throwIfAborted options = Inr ()"
    and "send d = table_send"
    and "cursorInputSort d tenant pagination (property (extractSortProperties messageSort))
           (direction (extractSortProperties messageSort)) = Inr params"
    and "parse_arguments (filteredItems filters (index_range params (rows (backend w)))) = Inr args"
    and "parse_each d args options = Inr ms"
  shows "Limit params = None \<and>
         query d tenant filters messageSort pagination options w =
           (Inr \<lparr>messages = ms, result_cursor = None\<rparr>,
            \<lparr>backend = backend w, sent = sent w @ [QueryCommand params, QueryCommand params]\<rparr>) \<and>
         length ms = length (filteredItems filters (index_range params (rows (backend w))))"
proof -
  let ?its = "index_range params (rows (backend w))"
  let ?data = "table_query params (rows (backend w))"
  have lim: "Limit params = None"
    using assms(1,4) by (rule cursorInputSort_unbounded)
  then have same: "params\<lparr>Limit := None\<rparr> = params" by simp
  have data: "Items ?data = Some ?its" "LastEvaluatedKey ?data = None"
    using lim by (simp_all add: table_query_def Let_def)
  have first: "client_send d (QueryCommand params) w =
      (Inr ?data, \<lparr>backend = backend w, sent = sent w @ [QueryCommand params]\<rparr>)"
    by (simp add: client_send_def assms(3))
  have second: "client_send d (QueryCommand params) \<lparr>backend = backend w, sent = sent w @ [QueryCommand params]\<rparr> =
      (Inr ?data, \<lparr>backend = backend w, sent = sent w @ [QueryCommand params, QueryCommand params]\<rparr>)"
    by (simp add: client_send_def assms(3))
  have check: "check_LastEvaluatedKey ?data = Inr ?data"
    using data(2) by (simp add: check_LastEvaluatedKey_def split: option.splits)
  have pag: "processPaginationResults d (filteredItems filters ?its)
      (property (extractSortProperties messageSort)) None
      (case pagination of None \<Rightarrow> None | Some pg \<Rightarrow> limit pg) options =
      Inr \<lparr>messages = ms, result_cursor = None\<rparr>"
    using assms(5,6) by (simp add: processPaginationResults_def)
  have "query d tenant filters messageSort pagination options w =
           (Inr \<lparr>messages = ms, result_cursor = None\<rparr>,
            \<lparr>backend = backend w, sent = sent w @ [QueryCommand params, QueryCommand params]\<rparr>)"
    unfolding query_def Let_def
    by (simp add: assms(2,4) same first second check data pag)
  moreover have "length ms = length (filteredItems filters ?its)"
    using parse_arguments_length [OF assms(5)] parse_each_length [OF assms(6)] by simp
  ultimately show ?thesis using lim by simp
qed

lemma unbounded_query_on_small_table:
  "unbounded (page 0) \<and>
   query (table_deps book) ''T'' [[(''schema'', EqualString ''y'')]] None (page 0) None
       (world [row_a, row_b, row_c] False) =
     (Inr \<lparr>messages = [records_write ''b'' None, records_write ''c'' None], result_cursor = None\<rparr>,
      \<lparr>backend = \<lparr>rows = [row_a, row_b, row_c], write_fails = False\<rparr>,
       sent = [QueryCommand \<lparr>TableName = ''messageStoreMessages'', KeyConditionTenant = ''T'',
                             ScanIndexForward = True, IndexName = Some ''messageTimestamp'',
                             Limit = None, ExclusiveStartKey = None\<rparr>,
               QueryCommand \<lparr>TableName = ''messageStoreMessages'', KeyConditionTenant = ''T'',
                             ScanIndexForward = True, IndexName = Some ''messageTimestamp'',
                             Limit = None, ExclusiveStartKey = None\<rparr>]\<rparr>)"
proof -
  let ?P = "\<lparr>TableName = ''messageStoreMessages'', KeyConditionTenant = ''T'',
             ScanIndexForward = True, IndexName = Some ''messageTimestamp'',
             Limit = None, ExclusiveStartKey = None\<rparr>"
  let ?F = "[[(''schema'', EqualString ''y'')]]"
  let ?w = "world [row_a, row_b, row_c] False"
  have 1: "unbounded (page 0)"
    by (simp add: unbounded_def page_def)
  have 2: "throwIfAborted None = Inr ()"
    by (simp add: throwIfAborted_def)
  have 3: "send (table_deps book) = table_send"
    by (simp add: table_deps_def)
  have 4: "cursorInputSort (table_deps book) ''T'' (page 0) (property (extractSortProperties None))
             (direction (extractSortProperties None)) = Inr ?P"
    by code_simp
  have 5: "parse_arguments (filteredItems ?F (index_range ?P (rows (backend ?w)))) =
             Inr [([2], None), ([3], None)]"
    by code_simp
  have 6: "parse_each (table_deps book) [([2], None), ([3], None)] None =
             Inr [records_write ''b'' None, records_write ''c'' None]"
    by code_simp
  from unbounded_query_returns_all [OF 1 2 3 4 5 6] 1 show ?thesis
    by (simp add: world_def)
qed

text \<open>
  C4. With the limit absent or zero the query should fetch until the index is exhausted,
  return every matching item and give no cursor. \<open>query\<close> reads one answer and never
  follows its last evaluated key, as the loop of \<open>clear\<close> does. Over three matching
  records, on the backend that answers one item at a time, the call without pagination
  returns the first record alone, with a cursor; so does the call with the limit 0. Both
  commands sent carry no \<open>Limit\<close>.
\<close>

theorem unbounded_query_stops_at_a_cut_answer:
  "unbounded None \<and> unbounded (page 0) \<and>
   filteredItems [[]] [row_a, row_b, row_c] = [row_a, row_b, row_c] \<and>
   query (cutting_deps 1 book) ''T'' [[]] None None None (world [row_a, row_b, row_c] False) =
     (Inr \<lparr>messages = [records_write ''a'' None],
           result_cursor = Some \<lparr>messageCid = ''tenant:T,messageCid:cidA,messageTimestamp:1,'',
                                 cursor_value = ''tenant:T,messageCid:cidA,messageTimestamp:1,''\<rparr>\<rparr>,
      \<lparr>backend = \<lparr>rows = [row_a, row_b, row_c], write_fails = False\<rparr>,
       sent = [QueryCommand \<lparr>TableName = ''messageStoreMessages'', KeyConditionTenant = ''T'',
                             ScanIndexForward = True, IndexName = Some ''messageTimestamp'',
                             Limit = None, ExclusiveStartKey = None\<rparr>,
               QueryCommand \<lparr>TableName = ''messageStoreMessages'', KeyConditionTenant = ''T'',
                             ScanIndexForward = True, IndexName = Some ''messageTimestamp'',
                             Limit = None, ExclusiveStartKey = None\<rparr>]\<rparr>) \<and>
   fst (query (cutting_deps 1 book) ''T'' [[]] None (page 0) None (world [row_a, row_b, row_c] False)) =
     Inr \<lparr>messages = [records_write ''a'' None],
          result_cursor = Some \<lparr>messageCid = ''tenant:T,messageCid:cidA,messageTimestamp:1,'',
                                cursor_value = ''tenant:T,messageCid:cidA,messageTimestamp:1,''\<rparr>\<rparr>"
  by code_simp

section \<open>What the pages add up to\<close>

text \<open>
  Over the reference table, the pages that a caller collects by following the cursors
  do add up to the matching records of the tenant's index range, in index order, each
  once. The lemmas below lead to that; they say nothing on how full a page is.
\<close>

lemma parse_arguments_append:
  "parse_arguments (a @ b) =
     (case parse_arguments a of
        Inl e \<Rightarrow> Inl e
      | Inr xa \<Rightarrow> (case parse_arguments b of Inl e \<Rightarrow> Inl e | Inr xb \<Rightarrow> Inr (xa @ xb)))"
  by (induction a) (simp_all split: option.splits sum.splits)

lemma parse_each_append:
  "parse_each d (a @ b) options =
     (case parse_each d a options of
        Inl e \<Rightarrow> Inl e
      | Inr ma \<Rightarrow> (case parse_each d b options of Inl e \<Rightarrow> Inl e | Inr mb \<Rightarrow> Inr (ma @ mb)))"
  by (induction a) (simp_all add: split_paired_all split: sum.splits)

lemma decoded_append:
  assumes "decoded d (a @ b) options = Inr ms"
  shows "\<exists>ma mb. decoded d a options = Inr ma \<and> decoded d b options = Inr mb \<and> ms = ma @ mb"
proof -
  from assms obtain xa xb where xa: "parse_arguments a = Inr xa" and xb: "parse_arguments b = Inr xb"
    and e: "parse_each d (xa @ xb) options = Inr ms"
    by (auto simp: decoded_def parse_arguments_append split: sum.splits)
  from e obtain ma mb where "parse_each d xa options = Inr ma" "parse_each d xb options = Inr mb" "ms = ma @ mb"
    by (auto simp: parse_each_append split: sum.splits)
  with xa xb show ?thesis by (simp add: decoded_def)
qed

lemma processPaginationResults_decoded:
  "processPaginationResults d results sortProperty lek limitArg options =
     (case decoded d results options of
        Inl e \<Rightarrow> Inl e
      | Inr ms \<Rightarrow> Inr \<lparr>messages = ms, result_cursor = map_option (cursor_of_key d) lek\<rparr>)"
  by (simp add: processPaginationResults_def decoded_def cursor_of_key_def Let_def
      split: sum.splits option.splits)

lemma map_of_filter_fst:
  "map_of (filter (\<lambda>kv. Q (fst kv)) it) k = (if Q k then map_of it k else None)"
  by (induction it) auto

lemma primary_key_key_of: "primary_key (key_of index it) = primary_key it"
  by (simp add: primary_key_def key_of_def
      map_of_filter_fst [where Q = "\<lambda>k. k = ''tenant'' \<or> k = ''messageCid'' \<or> Some k = index"])

lemma same_key_primary_key: "same_key k it = (primary_key it = primary_key k)"
  by (auto simp: same_key_def primary_key_def)

lemma dropWhile_to_key:
  assumes "distinct (map primary_key (pre @ x # ys))"
  shows "tl (dropWhile (\<lambda>it. \<not> same_key (key_of index x) it) (pre @ x # ys)) = ys"
proof -
  have "primary_key x \<notin> primary_key ` set pre"
    using assms by auto
  then have "\<forall>it \<in> set pre. primary_key it \<noteq> primary_key x"
    by (metis imageI)
  then have "\<forall>it \<in> set pre. \<not> same_key (key_of index x) it"
    by (simp add: same_key_primary_key primary_key_key_of)
  then have "dropWhile (\<lambda>it. \<not> same_key (key_of index x) it) (pre @ x # ys) =
      dropWhile (\<lambda>it. \<not> same_key (key_of index x) it) (x # ys)"
    by (simp add: dropWhile_append)
  then show ?thesis
    by (simp add: same_key_primary_key primary_key_key_of)
qed

lemma key_of_nonempty: "map_of it ''tenant'' = Some v \<Longrightarrow> key_of index it \<noteq> []"
proof -
  assume "map_of it ''tenant'' = Some v"
  then have "map_of (key_of index it) ''tenant'' = Some v"
    by (simp add: key_of_def
        map_of_filter_fst [where Q = "\<lambda>k. k = ''tenant'' \<or> k = ''messageCid'' \<or> Some k = index"])
  then show ?thesis by auto
qed

lemma key_matches_in_range:
  "lek \<noteq> [] \<Longrightarrow> 0 < scanned \<Longrightarrow> scanned \<le> length its \<Longrightarrow> key_matches lek its scanned m = Inr False"
proof (induction lek arbitrary: m)
  case Nil
  then show ?case by simp
next
  case (Cons kv rest)
  obtain key keyValue where kv: "kv = (key, keyValue)" by (cases kv)
  have r: "scanned - 1 < length its" using Cons.prems by arith
  show ?case
  proof (cases "rest = []")
    case True
    with kv r show ?thesis by (simp add: not_identical_def)
  next
    case False
    from Cons.IH [OF False Cons.prems(2,3)] kv r show ?thesis
      by (simp add: not_identical_def)
  qed
qed

lemma property_nonempty: "property (extractSortProperties messageSort) \<noteq> []"
  by (simp add: extractSortProperties_def split: option.splits)

lemma cursorInputSort_page:
  assumes "0 < l"
    and "case start of None \<Rightarrow> True | Some k \<Rightarrow> JSON_parse d (JSON_stringify d k) = Inr k"
  shows "cursorInputSort d tenant (Some \<lparr>cursor = map_option (cursor_of_key d) start, limit = Some l\<rparr>)
           (property (extractSortProperties messageSort)) (direction (extractSortProperties messageSort)) =
         Inr (page_params tenant messageSort l start)"
  using assms property_nonempty [of messageSort]
  by (cases start) (simp_all add: cursorInputSort_def page_params_def cursor_of_key_def Let_def)

lemma in_set_tl: "x \<in> set (tl xs) \<Longrightarrow> x \<in> set xs"
  by (cases xs) simp_all

lemma index_range_tenant:
  "it \<in> set (index_range p rs) \<Longrightarrow> map_of it ''tenant'' = Some (S (KeyConditionTenant p))"
proof -
  let ?part = "filter (\<lambda>it. map_of it ''tenant'' = Some (S (KeyConditionTenant p)) \<and>
                 (case IndexName p of None \<Rightarrow> True | Some a \<Rightarrow> map_of it a \<noteq> None)) rs"
  let ?ord = "if ScanIndexForward p then ?part else rev ?part"
  assume "it \<in> set (index_range p rs)"
  then have "it \<in> set ?ord"
  proof (cases "ExclusiveStartKey p")
    case None
    assume "it \<in> set (index_range p rs)"
    with None show ?thesis by (simp add: index_range_def Let_def)
  next
    case (Some k)
    assume "it \<in> set (index_range p rs)"
    with Some have "it \<in> set (tl (dropWhile (\<lambda>it. \<not> same_key k it) ?ord))"
      by (simp add: index_range_def Let_def)
    then have "it \<in> set (dropWhile (\<lambda>it. \<not> same_key k it) ?ord)"
      by (rule in_set_tl)
    then show ?thesis by (rule set_dropWhileD)
  qed
  then have "it \<in> set ?part" by (simp split: if_splits)
  then show ?thesis by simp
qed

lemma index_range_start:
  "index_range (page_params tenant messageSort l (Some k)) rs =
     tl (dropWhile (\<lambda>it. \<not> same_key k it) (index_range (page_params tenant messageSort l None) rs))"
  by (simp add: index_range_def page_params_def Let_def)

text \<open>
  One call over the table: the page is the filtered window of \<open>l\<close> items, and the
  cursor is the key of the last item of the window when the window is full.
\<close>

lemma query_table_page:
  assumes send: "send d = table_send"
    and l: "0 < l"
    and start: "case start of None \<Rightarrow> True | Some k \<Rightarrow> JSON_parse d (JSON_stringify d k) = Inr k"
    and ys: "index_range (page_params tenant messageSort l start) (rows (backend w)) = ys"
    and dec: "decoded d (filteredItems filters (take l ys)) None = Inr ma"
  shows "\<exists>w'. query d tenant filters messageSort
           (Some \<lparr>cursor = map_option (cursor_of_key d) start, limit = Some l\<rparr>) None w =
         (Inr \<lparr>messages = ma,
               result_cursor =
                 (if l \<le> length ys
                  then Some (cursor_of_key d
                         (key_of (Some (property (extractSortProperties messageSort))) (last (take l ys))))
                  else None)\<rparr>, w') \<and> backend w' = backend w"
proof -
  let ?p = "page_params tenant messageSort l start"
  let ?idx = "Some (property (extractSortProperties messageSort))"
  let ?data = "table_query ?p (rows (backend w))"
  let ?w1 = "\<lparr>backend = backend w, sent = sent w @ [QueryCommand ?p]\<rparr>"
  let ?w2 = "\<lparr>backend = backend w, sent = sent w @ [QueryCommand ?p, QueryCommand (?p\<lparr>Limit := None\<rparr>)]\<rparr>"
  let ?lek = "if l \<le> length ys then Some (key_of ?idx (last (take l ys))) else None"
  have params: "cursorInputSort d tenant (Some \<lparr>cursor = map_option (cursor_of_key d) start, limit = Some l\<rparr>)
           (property (extractSortProperties messageSort)) (direction (extractSortProperties messageSort)) = Inr ?p"
    using l start by (rule cursorInputSort_page)
  have data: "?data = \<lparr>Item = None, Items = Some (take l ys), ScannedCount = Some (length (take l ys)),
                        LastEvaluatedKey = ?lek\<rparr>"
    using l ys by (simp add: table_query_def Let_def page_params_def)
  have first: "client_send d (QueryCommand ?p) w = (Inr ?data, ?w1)"
    by (simp add: client_send_def send)
  have second: "\<exists>data2. client_send d (QueryCommand (?p\<lparr>Limit := None\<rparr>)) ?w1 = (Inr data2, ?w2)"
    by (simp add: client_send_def send)
  have check: "check_LastEvaluatedKey ?data = Inr ?data"
  proof (cases "l \<le> length ys")
    case False
    then show ?thesis by (simp add: data check_LastEvaluatedKey_def)
  next
    case True
    with l have ne: "take l ys \<noteq> []" by auto
    then have "last (take l ys) \<in> set (take l ys)" by (rule last_in_set)
    then have "last (take l ys) \<in> set ys" by (rule in_set_takeD)
    then have "map_of (last (take l ys)) ''tenant'' = Some (S (KeyConditionTenant ?p))"
      using ys index_range_tenant by blast
    then have k: "key_of ?idx (last (take l ys)) \<noteq> []" by (rule key_of_nonempty)
    have len: "length (take l ys) = l" using True by simp
    have "key_matches (key_of ?idx (last (take l ys))) (take l ys) l True = Inr False"
      using k l len by (intro key_matches_in_range) simp_all
    with True l len show ?thesis
      by (simp add: data check_LastEvaluatedKey_def)
  qed
  from second obtain data2 where second': "client_send d (QueryCommand (?p\<lparr>Limit := None\<rparr>)) ?w1 = (Inr data2, ?w2)" ..
  have pag: "processPaginationResults d (filteredItems filters (take l ys))
      (property (extractSortProperties messageSort)) ?lek (Some l) None =
      Inr \<lparr>messages = ma, result_cursor = map_option (cursor_of_key d) ?lek\<rparr>"
    by (simp add: processPaginationResults_decoded dec)
  have items: "Items ?data = Some (take l ys)" and lek: "LastEvaluatedKey ?data = ?lek"
    by (simp_all add: data)
  have "query d tenant filters messageSort
           (Some \<lparr>cursor = map_option (cursor_of_key d) start, limit = Some l\<rparr>) None w =
         (Inr \<lparr>messages = ma, result_cursor = map_option (cursor_of_key d) ?lek\<rparr>, ?w2)"
    unfolding query_def Let_def
    by (simp add: throwIfAborted_def params first second' check items lek pag del: table_send.simps)
  moreover have "map_option (cursor_of_key d) ?lek =
      (if l \<le> length ys then Some (cursor_of_key d (key_of ?idx (last (take l ys)))) else None)"
    by simp
  ultimately show ?thesis by simp
qed

text \<open>
  The pages from any point of the index range on. The induction is on the length of
  what remains of the range; each full window shortens it, and more fuel than its length
  is enough.
\<close>

lemma pages_from:
  assumes send: "send d = table_send"
    and l: "0 < l"
    and xs: "xs = index_range (page_params tenant messageSort l None) rs"
    and dist: "distinct (map primary_key xs)"
    and rt: "\<forall>it \<in> set xs. JSON_parse d (JSON_stringify d
               (key_of (Some (property (extractSortProperties messageSort))) it)) =
             Inr (key_of (Some (property (extractSortProperties messageSort))) it)"
  shows "rows (backend w) = rs \<Longrightarrow>
         \<exists>pre. xs = pre @ ys \<Longrightarrow>
         index_range (page_params tenant messageSort l start) rs = ys \<Longrightarrow>
         (case start of None \<Rightarrow> True | Some k \<Rightarrow> JSON_parse d (JSON_stringify d k) = Inr k) \<Longrightarrow>
         decoded d (filteredItems filters ys) None = Inr ms \<Longrightarrow>
         length ys < fuel \<Longrightarrow>
         \<exists>ps. pages fuel d tenant filters messageSort l (map_option (cursor_of_key d) start) w =
                 Some (Inr ps) \<and> concat ps = ms"
proof (induction "length ys" arbitrary: ys start w ms fuel rule: less_induct)
  case less
  let ?idx = "Some (property (extractSortProperties messageSort))"
  from less.prems(6) obtain f where fuel: "fuel = Suc f" and f: "length ys \<le> f"
    by (cases fuel) auto
  have split: "filteredItems filters ys =
      filteredItems filters (take l ys) @ filteredItems filters (drop l ys)"
    by (simp add: filteredItems_def filter_append [symmetric])
  from less.prems(5) obtain ma mb where
    ma: "decoded d (filteredItems filters (take l ys)) None = Inr ma" and
    mb: "decoded d (filteredItems filters (drop l ys)) None = Inr mb" and
    ms: "ms = ma @ mb"
    unfolding split by (blast dest: decoded_append)
  have ys: "index_range (page_params tenant messageSort l start) (rows (backend w)) = ys"
    using less.prems(1,3) by simp
  from query_table_page [OF send l less.prems(4) ys ma] obtain w' where
    q: "query d tenant filters messageSort
           (Some \<lparr>cursor = map_option (cursor_of_key d) start, limit = Some l\<rparr>) None w =
         (Inr \<lparr>messages = ma,
               result_cursor =
                 (if l \<le> length ys
                  then Some (cursor_of_key d (key_of ?idx (last (take l ys))))
                  else None)\<rparr>, w')"
    and w': "backend w' = backend w"
    by blast
  show ?case
  proof (cases "l \<le> length ys")
    case False
    then have "drop l ys = []" by simp
    then have "mb = []" using mb by (simp add: decoded_def filteredItems_def)
    with False q ms show ?thesis by (simp add: fuel)
  next
    case True
    let ?x = "last (take l ys)"
    let ?k = "key_of ?idx ?x"
    have ne: "take l ys \<noteq> []" using True l by auto
    have tk: "take l ys = butlast (take l ys) @ [?x]"
      using ne by simp
    have ys_split: "ys = butlast (take l ys) @ ?x # drop l ys"
    proof -
      have "ys = take l ys @ drop l ys" by simp
      also have "\<dots> = (butlast (take l ys) @ [?x]) @ drop l ys" using tk by simp
      finally show ?thesis by simp
    qed
    from less.prems(2) obtain pre where pre: "xs = pre @ ys" ..
    then have xs_split: "xs = (pre @ butlast (take l ys)) @ ?x # drop l ys"
      using ys_split by simp
    have x_in: "?x \<in> set xs"
      using xs_split by (metis in_set_conv_decomp)
    have next_range: "index_range (page_params tenant messageSort l (Some ?k)) rs = drop l ys"
    proof -
      have "distinct (map primary_key ((pre @ butlast (take l ys)) @ ?x # drop l ys))"
        using dist xs_split by simp
      then have "tl (dropWhile (\<lambda>it. \<not> same_key ?k it) ((pre @ butlast (take l ys)) @ ?x # drop l ys)) =
          drop l ys"
        by (rule dropWhile_to_key)
      then show ?thesis
        using xs xs_split by (simp only: index_range_start)
    qed
    have suffix: "\<exists>pre'. xs = pre' @ drop l ys"
      using xs_split by (metis append.assoc append_Cons append_Nil)
    have shorter: "length (drop l ys) < length ys"
      using True l by simp
    have rt_k: "case Some ?k of None \<Rightarrow> True | Some k \<Rightarrow> JSON_parse d (JSON_stringify d k) = Inr k"
      using rt x_in by simp
    have rows': "rows (backend w') = rs"
      using w' less.prems(1) by simp
    have fuel': "length (drop l ys) < f"
      using shorter f by simp
    from less.hyps [OF shorter rows' suffix next_range rt_k mb fuel'] obtain ps where
      ps: "pages f d tenant filters messageSort l (map_option (cursor_of_key d) (Some ?k)) w' =
             Some (Inr ps)" and cc: "concat ps = mb"
      by blast
    from True q ps have
      "pages fuel d tenant filters messageSort l (map_option (cursor_of_key d) start) w =
         Some (Inr (ma # ps))"
      by (simp add: fuel)
    with cc ms show ?thesis by simp
  qed
qed

lemma pages_concatenate_to_all_matches:
  assumes "send d = table_send"
    and "0 < l"
    and "xs = index_range (page_params tenant messageSort l None) (rows (backend w))"
    and "distinct (map primary_key xs)"
    and "\<forall>it \<in> set xs. JSON_parse d (JSON_stringify d
               (key_of (Some (property (extractSortProperties messageSort))) it)) =
             Inr (key_of (Some (property (extractSortProperties messageSort))) it)"
    and "decoded d (filteredItems filters xs) None = Inr ms"
  shows "\<exists>ps. pages (Suc (length xs)) d tenant filters messageSort l None w = Some (Inr ps) \<and>
              concat ps = ms"
proof -
  have a: "rows (backend w) = rows (backend w)" by simp
  have b: "\<exists>pre. xs = pre @ xs" by simp
  have c: "index_range (page_params tenant messageSort l None) (rows (backend w)) = xs"
    using assms(3) by simp
  have e: "case None :: item option of None \<Rightarrow> True | Some k \<Rightarrow> JSON_parse d (JSON_stringify d k) = Inr k"
    by simp
  have f: "length xs < Suc (length xs)" by simp
  from pages_from [OF assms(1,2,3,4,5) a b c e assms(6) f] show ?thesis by simp
qed

text \<open>
  On the table of C1 the caller gets three pages for one matching record: an empty one,
  one with the record, and an empty one again.
\<close>

lemma pages_on_small_table:
  "pages 4 (table_deps book) ''T'' [[(''schema'', EqualString ''y'')]] None 1 None
       (world [row_a, row_b] False) =
     Some (Inr [[], [records_write ''b'' None], []])"
  by code_simp

end
